theory Spec2Isabelle
  imports Complex_Main "HOL-Library.Product_Lexorder" "HOL-Library.List_Lexorder"
    "HOL-Library.Char_ord" "HOL-Library.Log_Nat"
begin

section \<open>Values, token records and feature mappings\<close>

text \<open>
  A cell of the pandas table, and hence an attribute of a token tuple, is a text, an
  integer, a boolean or the missing value NaN. Fractional numbers are not modelled;
  no function below computes with the numeric attributes.
\<close>

datatype cell = Str string | Num int | Bool bool | NaN

text \<open>
  The exceptions the script can meet: a missing input file, pandas' refusal of a column
  of the wrong length, and Python's division by zero.
\<close>

datatype error = FileNotFoundError | ValueError | ZeroDivisionError

text \<open>
  The 16-tuple built by \<open>read_and_format_data\<close> and unpacked by \<open>extract_features\<close>
  and \<open>extract_labels\<close>; the fields carry the names of the unpacking, in its order
  (\<open>lemma\<close> is written \<open>lemma'\<close>).
\<close>

record token_info =
  token :: cell
  lemma' :: cell
  pos :: cell
  cue :: cell
  constituency_distance :: cell
  same_clause :: cell
  same_phrase :: cell
  is_punct :: cell
  sentence_position :: cell
  is_negation_cue :: cell
  token_distance :: cell
  dependency_type :: cell
  dependency_head :: cell
  distance_to_root :: cell
  distance_to_cue :: cell
  label :: cell

text \<open>
  A Python dict keeps its keys in insertion order: a feature mapping is an association
  list with pairwise distinct keys.
\<close>

type_synonym features = "(string \<times> cell) list"

definition keys :: "features \<Rightarrow> string list" where
  "keys d = map fst d"

definition dict_del :: "string \<Rightarrow> features \<Rightarrow> features" where
  "dict_del k d = filter (\<lambda>kv. fst kv \<noteq> k) d"

subsection \<open>Formatting inside an f-string\<close>

fun str_nat :: "nat \<Rightarrow> string" where
  "str_nat n =
     (if n < 10 then [''0123456789'' ! n]
      else str_nat (n div 10) @ [''0123456789'' ! (n mod 10)])"

declare str_nat.simps [simp del]

definition str_int :: "int \<Rightarrow> string" where
  "str_int i = (if i < 0 then CHR ''-'' # str_nat (nat (- i)) else str_nat (nat i))"

fun py_str :: "cell \<Rightarrow> string" where
  "py_str (Str s) = s"
| "py_str (Num i) = str_int i"
| "py_str (Bool b) = (if b then ''True'' else ''False'')"
| "py_str NaN = ''nan''"

section \<open>extract_features\<close>

text \<open>
  The body of the loop up to the dict literal, for the token at index \<open>i\<close>. The loop
  runs over \<open>range(len(sentence))\<close>, so \<open>i\<close> is in range and the sentence is not
  empty where this is evaluated; \<open>len(sentence) - 1\<close> is then not negative.
\<close>

definition build_features :: "token_info list \<Rightarrow> nat \<Rightarrow> features" where
  "build_features sentence i =
     (let t = sentence ! i;
          prev_pos = (if i > 0 then pos (sentence ! (i - 1)) else Str ''START'');
          next_pos = (if i < length sentence - 1 then pos (sentence ! (i + 1)) else Str ''END'')
      in [(''token'', token t),
          (''lemma'', lemma' t),
          (''pos'', pos t),
          (''lexicalized_pos'', Str (py_str (lemma' t) @ ''_'' @ py_str (pos t))),
          (''cue'', cue t),
          (''prev_pos'', prev_pos),
          (''next_pos'', next_pos),
          (''constituency_distance'', constituency_distance t),
          (''same_clause'', same_clause t),
          (''same_phrase'', same_phrase t),
          (''is_punct'', is_punct t),
          (''sentence_position'', sentence_position t),
          (''is_negation_cue'', is_negation_cue t),
          (''token_distance'', token_distance t),
          (''dependency_type'', dependency_type t),
          (''dependency_head'', dependency_head t),
          (''distance_to_root'', distance_to_root t),
          (''distance_to_cue'', distance_to_cue t)])"

text \<open>
  \<open>exclude_feature\<close> is \<open>None\<close> or a string; the test
  \<open>exclude_feature and exclude_feature in features\<close> is false for \<open>None\<close> and for
  the empty string.
\<close>

definition exclude :: "string option \<Rightarrow> features \<Rightarrow> features" where
  "exclude exclude_feature d =
     (case exclude_feature of
        None \<Rightarrow> d
      | Some k \<Rightarrow> if k \<noteq> [] \<and> k \<in> set (keys d) then dict_del k d else d)"

definition extract_features :: "token_info list \<Rightarrow> string option \<Rightarrow> features list" where
  "extract_features sentence exclude_feature =
     map (\<lambda>i. exclude exclude_feature (build_features sentence i)) [0..<length sentence]"

text \<open>The keys of the dict literal, in the order of the literal.\<close>

definition dict_literal_keys :: "string list" where
  "dict_literal_keys =
     [''token'', ''lemma'', ''pos'', ''lexicalized_pos'', ''cue'', ''prev_pos'', ''next_pos'',
      ''constituency_distance'', ''same_clause'', ''same_phrase'', ''is_punct'',
      ''sentence_position'', ''is_negation_cue'', ''token_distance'', ''dependency_type'',
      ''dependency_head'', ''distance_to_root'', ''distance_to_cue'']"

text \<open>
  The 16 attributes of a token tuple: the column names \<open>read_and_format_data\<close> takes
  them from, in the order of the tuple, each with the field it fills.
\<close>

definition token_fields :: "(string \<times> (token_info \<Rightarrow> cell)) list" where
  "token_fields =
     [(''token'', token), (''lemma'', lemma'), (''pos'', pos), (''cue'', cue),
      (''constituency_distance'', constituency_distance), (''same_clause'', same_clause),
      (''same_phrase'', same_phrase), (''is_punct'', is_punct),
      (''sentence_position'', sentence_position), (''is_negation_cue'', is_negation_cue),
      (''token_distance'', token_distance), (''dependency_type'', dependency_type),
      (''dependency_head'', dependency_head), (''distance_to_root'', distance_to_root),
      (''distance_to_cue'', distance_to_cue), (''label'', label)]"

section \<open>extract_labels\<close>

definition extract_labels :: "token_info list \<Rightarrow> cell list" where
  "extract_labels sentence = map label sentence"

section \<open>The scope metric\<close>

definition is_in_scope :: "cell \<Rightarrow> bool" where
  "is_in_scope l = (l \<noteq> Str ''OS'')"

text \<open>\<open>sum(1 for yt, yp in zip(y_true, y_pred) if cond(yt, yp))\<close>\<close>

definition count_pairs :: "(cell \<Rightarrow> cell \<Rightarrow> bool) \<Rightarrow> cell list \<Rightarrow> cell list \<Rightarrow> int" where
  "count_pairs cond y_true y_pred =
     sum_list (map (\<lambda>_. 1) (filter (\<lambda>(yt, yp). cond yt yp) (zip y_true y_pred)))"

definition true_positives :: "cell list \<Rightarrow> cell list \<Rightarrow> int" where
  "true_positives = count_pairs (\<lambda>yt yp. is_in_scope yt \<and> is_in_scope yp)"

definition false_positives :: "cell list \<Rightarrow> cell list \<Rightarrow> int" where
  "false_positives = count_pairs (\<lambda>yt yp. \<not> is_in_scope yt \<and> is_in_scope yp)"

definition false_negatives :: "cell list \<Rightarrow> cell list \<Rightarrow> int" where
  "false_negatives = count_pairs (\<lambda>yt yp. is_in_scope yt \<and> \<not> is_in_scope yp)"

definition true_negatives :: "cell list \<Rightarrow> cell list \<Rightarrow> int" where
  "true_negatives = count_pairs (\<lambda>yt yp. \<not> is_in_scope yt \<and> \<not> is_in_scope yp)"

subsection \<open>Double-precision arithmetic\<close>

text \<open>
  Python's floats are IEEE 754 binary64 numbers, and each arithmetic operation returns
  the representable number nearest to the exact result, a tie going to the even
  significand. A float is modelled by the rational number it denotes. A double is a
  multiple of its quantum \<open>2 ^ q\<close>, where \<open>q\<close> is 52 below the binary exponent of the
  number and never below -1074 (the subnormal numbers); infinities are not modelled,
  no value of the metric exceeds 2.
\<close>

definition ilog2 :: "rat \<Rightarrow> int" where
  "ilog2 x =
     (let (a, b) = quotient_of x; d = bitlen a - bitlen b
      in if 2 powi d \<le> x then d else d - 1)"

definition round_half_even :: "rat \<Rightarrow> int" where
  "round_half_even m =
     (let f = \<lfloor>m\<rfloor>; d = m - of_int f
      in if d < 1 / 2 then f else if 1 / 2 < d then f + 1 else if even f then f else f + 1)"

definition quantum :: "rat \<Rightarrow> int" where
  "quantum x = max (ilog2 \<bar>x\<bar> - 52) (- 1074)"

definition nearest_double :: "rat \<Rightarrow> rat" where
  "nearest_double x =
     (if x = 0 then 0
      else of_int (round_half_even (x / 2 powi quantum x)) * 2 powi quantum x)"

text \<open>
  Python's \<open>/\<close> on two ints gives the correctly rounded quotient and raises on a zero
  divisor; \<open>/\<close>, \<open>*\<close> and \<open>+\<close> on floats (an int operand is converted first) round
  their exact result, and \<open>/\<close> raises on a zero divisor.
\<close>

definition int_truediv :: "int \<Rightarrow> int \<Rightarrow> error + rat" where
  "int_truediv a b =
     (if b = 0 then Inl ZeroDivisionError else Inr (nearest_double (of_int a / of_int b)))"

definition float_truediv :: "rat \<Rightarrow> rat \<Rightarrow> error + rat" where
  "float_truediv x y = (if y = 0 then Inl ZeroDivisionError else Inr (nearest_double (x / y)))"

definition float_mul :: "rat \<Rightarrow> rat \<Rightarrow> rat" where
  "float_mul x y = nearest_double (x * y)"

definition float_add :: "rat \<Rightarrow> rat \<Rightarrow> rat" where
  "float_add x y = nearest_double (x + y)"

definition bind :: "error + 'a \<Rightarrow> ('a \<Rightarrow> error + 'b) \<Rightarrow> error + 'b" where
  "bind m f = (case m of Inl e \<Rightarrow> Inl e | Inr x \<Rightarrow> f x)"

definition calculate_metrics :: "cell list \<Rightarrow> cell list \<Rightarrow> error + (rat \<times> rat \<times> rat)" where
  "calculate_metrics y_true y_pred =
     (let tp = true_positives y_true y_pred;
          fp = false_positives y_true y_pred;
          fn = false_negatives y_true y_pred;
          tn = true_negatives y_true y_pred
      in bind (if tp + fp > 0 then int_truediv tp (tp + fp) else Inr 0)
           (\<lambda>precision.
         bind (if tp + fn > 0 then int_truediv tp (tp + fn) else Inr 0)
           (\<lambda>recall.
         bind (if float_add precision recall > 0
               then float_truediv (float_mul 2 (float_mul precision recall))
                      (float_add precision recall)
               else Inr 0)
           (\<lambda>f1_score. Inr (precision, recall, f1_score)))))"

subsection \<open>The metric as the specification words it, in double precision\<close>

text \<open>
  The specification counts indices: TP is the number of indices where gold and predicted
  label are both in scope, FP where the gold label is \<open>OS\<close> and the predicted one is
  not, FN where the gold label is in scope and the predicted one is \<open>OS\<close>. Precision
  and recall are the quotients of the counts, and F1 is \<open>2 * (P * R) / (P + R)\<close>; each
  is 0 when its denominator is 0, and each product, sum and quotient is rounded to the
  nearest double.
\<close>

definition spec_count :: "(cell \<Rightarrow> cell \<Rightarrow> bool) \<Rightarrow> cell list \<Rightarrow> cell list \<Rightarrow> nat" where
  "spec_count c gold predicted =
     length (filter (\<lambda>i. c (gold ! i) (predicted ! i)) [0..<length gold])"

definition spec_ratio :: "nat \<Rightarrow> nat \<Rightarrow> rat" where
  "spec_ratio a b = (if b = 0 then 0 else nearest_double (of_nat a / of_nat b))"

definition spec_f1 :: "rat \<Rightarrow> rat \<Rightarrow> rat" where
  "spec_f1 P R =
     (if nearest_double (P + R) = 0 then 0
      else nearest_double (nearest_double (2 * nearest_double (P * R)) / nearest_double (P + R)))"

definition spec_metrics :: "cell list \<Rightarrow> cell list \<Rightarrow> rat \<times> rat \<times> rat" where
  "spec_metrics gold predicted =
     (let TP = spec_count (\<lambda>g p. g \<noteq> Str ''OS'' \<and> p \<noteq> Str ''OS'') gold predicted;
          FP = spec_count (\<lambda>g p. g = Str ''OS'' \<and> p \<noteq> Str ''OS'') gold predicted;
          FN = spec_count (\<lambda>g p. g \<noteq> Str ''OS'' \<and> p = Str ''OS'') gold predicted;
          P = spec_ratio TP (TP + FP);
          R = spec_ratio TP (TP + FN)
      in (P, R, spec_f1 P R))"

section \<open>The tables of pandas\<close>

text \<open>
  A row of the 21-column table that \<open>read_csv\<close> builds from a file, one field per
  column name of the script's \<open>columns\<close> list (prefixed with \<open>row_\<close>). The three
  columns that identify a token hold a document id of any linearly ordered type (texts
  or numbers), a sentence number and a token number, or are missing (\<open>None\<close>, pandas'
  NaN); the other columns hold cells.
\<close>

record 'd row =
  row_doc_id :: "'d option"
  row_sentence_num :: "int option"
  row_token_num :: "int option"
  row_token :: cell
  row_lemma :: cell
  row_pos :: cell
  row_constituency :: cell
  row_cue :: cell
  row_label :: cell
  row_focus :: cell
  row_constituency_distance :: cell
  row_same_clause :: cell
  row_same_phrase :: cell
  row_is_punct :: cell
  row_sentence_position :: cell
  row_is_negation_cue :: cell
  row_token_distance :: cell
  row_dependency_type :: cell
  row_dependency_head :: cell
  row_distance_to_root :: cell
  row_distance_to_cue :: cell

text \<open>
  A file is modelled by the table that \<open>read_csv\<close> parses from its text. Reading a
  path that holds no file raises; a file that pandas cannot parse is not modelled.
\<close>

type_synonym 'd files = "string \<rightharpoonup> 'd row list"

definition read_csv :: "'d files \<Rightarrow> string \<Rightarrow> error + 'd row list" where
  "read_csv fs file_path =
     (case fs file_path of None \<Rightarrow> Inl FileNotFoundError | Some df \<Rightarrow> Inr df)"

text \<open>
  \<open>to_csv\<close> writes a table as TSV text, and the table parsed from that text need not be
  the table written: \<open>read_csv\<close> infers the types of the columns anew and turns its
  NA markers into missing values (the text \<open>NA\<close> comes back as NaN, a column of the
  texts \<open>1\<close>, \<open>2\<close> as integers). How pandas prints and parses is not part of the
  repository: the function \<open>reread\<close>, from the table written to the table parsed from
  the text written for it, is a parameter of \<open>to_csv\<close> and of what calls it, and the
  file that \<open>to_csv\<close> leaves holds \<open>reread df\<close>.
\<close>

definition to_csv ::
  "('d row list \<Rightarrow> 'd row list) \<Rightarrow> 'd files \<Rightarrow> string \<Rightarrow> 'd row list \<Rightarrow> 'd files" where
  "to_csv reread fs file_path df = fs(file_path \<mapsto> reread df)"

text \<open>
  One thing pandas does on reading: a text that is one of the default NA markers of
  \<open>read_csv\<close> becomes the missing value. \<open>reread_na\<close> does this to the label column
  and gives the other columns back as written.
\<close>

definition na_values :: "string list" where
  "na_values =
     [[], ''#N/A'', ''#N/A N/A'', ''#NA'', ''-1.#IND'', ''-1.#QNAN'', ''-NaN'', ''-nan'',
      ''1.#IND'', ''1.#QNAN'', ''<NA>'', ''N/A'', ''NA'', ''NULL'', ''NaN'', ''None'', ''n/a'',
      ''nan'', ''null'']"

definition read_label :: "cell \<Rightarrow> cell" where
  "read_label c = (case c of Str s \<Rightarrow> if s \<in> set na_values then NaN else Str s | _ \<Rightarrow> c)"

definition reread_na :: "'d row list \<Rightarrow> 'd row list" where
  "reread_na df = map (\<lambda>r. r\<lparr>row_label := read_label (row_label r)\<rparr>) df"

text \<open>
  \<open>groupby(['doc_id', 'sentence_num'])\<close> with pandas' defaults: rows whose key has a
  missing part are dropped, the groups come in ascending order of their keys, and the
  rows of a group keep the order they have in the table.
\<close>

definition group_key :: "'d row \<Rightarrow> ('d \<times> int) option" where
  "group_key r =
     (case (row_doc_id r, row_sentence_num r) of
        (Some d, Some n) \<Rightarrow> Some (d, n)
      | _ \<Rightarrow> None)"

definition groupby :: "('d::linorder) row list \<Rightarrow> (('d \<times> int) \<times> 'd row list) list" where
  "groupby df =
     map (\<lambda>k. (k, filter (\<lambda>r. group_key r = Some k) df))
       (sort (remdups (List.map_filter group_key df)))"

text \<open>
  \<open>original_df['label'] = predictions_flat\<close>, the assignment of a list to a column.
  pandas gives a table that has no rows its index from the assigned list
  (\<open>DataFrame._ensure_valid_index\<close>): the table then has one row per value, with every
  other column missing. Otherwise the list must have one value per row
  (\<open>require_length_match\<close>), or the assignment raises \<open>ValueError\<close>.
\<close>

definition nan_row :: "'d row" where
  "nan_row =
     \<lparr>row_doc_id = None, row_sentence_num = None, row_token_num = None, row_token = NaN,
      row_lemma = NaN, row_pos = NaN, row_constituency = NaN, row_cue = NaN, row_label = NaN,
      row_focus = NaN, row_constituency_distance = NaN, row_same_clause = NaN,
      row_same_phrase = NaN, row_is_punct = NaN, row_sentence_position = NaN,
      row_is_negation_cue = NaN, row_token_distance = NaN, row_dependency_type = NaN,
      row_dependency_head = NaN, row_distance_to_root = NaN, row_distance_to_cue = NaN\<rparr>"

definition relabel :: "'d row list \<Rightarrow> cell list \<Rightarrow> 'd row list" where
  "relabel df vals = map (\<lambda>(r, v). r\<lparr>row_label := v\<rparr>) (zip df vals)"

definition set_label_column :: "'d row list \<Rightarrow> cell list \<Rightarrow> error + 'd row list" where
  "set_label_column df vals =
     (if df = [] \<and> vals \<noteq> [] then Inr (map (\<lambda>v. nan_row\<lparr>row_label := v\<rparr>) vals)
      else if length vals \<noteq> length df then Inl ValueError
      else Inr (relabel df vals))"

section \<open>read_and_format_data\<close>

text \<open>
  The 16-tuple built from a row of \<open>iterrows\<close>; \<open>constituency\<close> and \<open>focus\<close> are left
  out. \<open>iterrows\<close> hands out the cells of a row unchanged when a column of the table
  holds text; a table of numeric columns only, whose integers it would turn into floats,
  is not modelled.
\<close>

definition row_tuple :: "'d row \<Rightarrow> token_info" where
  "row_tuple row =
     \<lparr>token = row_token row, lemma' = row_lemma row, pos = row_pos row, cue = row_cue row,
      constituency_distance = row_constituency_distance row, same_clause = row_same_clause row,
      same_phrase = row_same_phrase row, is_punct = row_is_punct row,
      sentence_position = row_sentence_position row, is_negation_cue = row_is_negation_cue row,
      token_distance = row_token_distance row, dependency_type = row_dependency_type row,
      dependency_head = row_dependency_head row, distance_to_root = row_distance_to_root row,
      distance_to_cue = row_distance_to_cue row, label = row_label row\<rparr>"

text \<open>The loop over the groups.\<close>

definition format_data :: "('d::linorder) row list \<Rightarrow> token_info list list" where
  "format_data data_df = map (\<lambda>(_, group). map row_tuple group) (groupby data_df)"

definition read_and_format_data :: "('d::linorder) files \<Rightarrow> string \<Rightarrow> error + token_info list list" where
  "read_and_format_data fs file_path =
     bind (read_csv fs file_path) (\<lambda>data_df. Inr (format_data data_df))"

section \<open>write_predictions_to_file\<close>

text \<open>
  The function returns the file system with the output file written, or the error that
  stopped it; after an error nothing has been written.
\<close>

definition write_predictions_to_file ::
  "('d row list \<Rightarrow> 'd row list) \<Rightarrow> 'd files \<Rightarrow> string \<Rightarrow> cell list list \<Rightarrow> string
     \<Rightarrow> error + 'd files" where
  "write_predictions_to_file reread fs original_file_path sentences_with_predictions
       output_file_path =
     bind (read_csv fs original_file_path) (\<lambda>original_df.
       let predictions_flat = concat sentences_with_predictions
       in bind (set_label_column original_df predictions_flat) (\<lambda>df.
            Inr (to_csv reread fs output_file_path df)))"

text \<open>
  Writing the predictions, loading the written file and extracting the labels of each
  loaded sentence.
\<close>

definition written_labels ::
  "(('d::linorder) row list \<Rightarrow> 'd row list) \<Rightarrow> 'd files \<Rightarrow> string \<Rightarrow> cell list list \<Rightarrow> string
     \<Rightarrow> error + cell list list" where
  "written_labels reread fs original_file_path sentences_with_predictions output_file_path =
     bind (write_predictions_to_file reread fs original_file_path sentences_with_predictions
             output_file_path) (\<lambda>fs'.
       bind (read_and_format_data fs' output_file_path) (\<lambda>sentences.
         Inr (map extract_labels sentences)))"

text \<open>
  A table is ordered by (document id, sentence number, token number) when every row
  has the three and the rows ascend in their lexicographic order.
\<close>

definition order_key :: "'d row \<Rightarrow> ('d \<times> int \<times> int) option" where
  "order_key r =
     (case (row_doc_id r, row_sentence_num r, row_token_num r) of
        (Some d, Some n, Some t) \<Rightarrow> Some (d, n, t)
      | _ \<Rightarrow> None)"

definition rows_ordered :: "('d::linorder) row list \<Rightarrow> bool" where
  "rows_ordered df =
     (list_all (\<lambda>r. order_key r \<noteq> None) df \<and> sorted (map (the \<circ> order_key) df))"

text \<open>
  A written table is read back as written, as far as the labels of the loaded sentences
  depend on it, when the table parsed from the written text has, row by row, the
  document ids, sentence numbers and labels of the table written.
\<close>

definition read_back_as_written :: "('d row list \<Rightarrow> 'd row list) \<Rightarrow> 'd row list \<Rightarrow> bool" where
  "read_back_as_written reread df =
     (map group_key (reread df) = map group_key df \<and>
      map row_label (reread df) = map row_label df)"

definition is_text :: "cell \<Rightarrow> bool" where
  "is_text c = (case c of Str _ \<Rightarrow> True | _ \<Rightarrow> False)"

section \<open>A sample sentence\<close>

text \<open>Three tokens, used where a property is evaluated on concrete data.\<close>

definition sample_token :: "string \<Rightarrow> string \<Rightarrow> string \<Rightarrow> cell \<Rightarrow> token_info" where
  "sample_token w l p lab =
     \<lparr>token = Str w, lemma' = Str l, pos = Str p, cue = Str ''_'',
      constituency_distance = Num 1, same_clause = Bool True, same_phrase = Bool False,
      is_punct = Bool False, sentence_position = Num 0, is_negation_cue = Bool False,
      token_distance = Num 2, dependency_type = Str ''dep'', dependency_head = Str ''be'',
      distance_to_root = Num 1, distance_to_cue = NaN, label = lab\<rparr>"

definition sample_sentence :: "token_info list" where
  "sample_sentence =
     [sample_token ''It'' ''it'' ''PRP'' (Str ''OS''),
      sample_token ''is'' ''be'' ''VBZ'' (Str ''OS''),
      sample_token ''not'' ''not'' ''RB'' (Str ''B-NEG'')]"

text \<open>
  A table of four rows in three sentences, ordered by document, sentence and token, and
  one predicted label sequence per sentence.
\<close>

definition sample_row :: "string \<Rightarrow> int \<Rightarrow> int \<Rightarrow> string \<Rightarrow> string \<Rightarrow> string row" where
  "sample_row d n t w lab =
     \<lparr>row_doc_id = Some d, row_sentence_num = Some n, row_token_num = Some t, row_token = Str w,
      row_lemma = Str w, row_pos = Str ''X'', row_constituency = Str ''(S*'', row_cue = Str ''_'',
      row_label = Str lab, row_focus = Str ''_'', row_constituency_distance = Num 1,
      row_same_clause = Bool True, row_same_phrase = Bool False, row_is_punct = Bool False,
      row_sentence_position = Num t, row_is_negation_cue = Bool False, row_token_distance = Num 2,
      row_dependency_type = Str ''dep'', row_dependency_head = Str ''be'',
      row_distance_to_root = Num 1, row_distance_to_cue = NaN\<rparr>"

definition sample_table :: "string row list" where
  "sample_table =
     [sample_row ''cardboard'' 7 0 ''No'' ''B-NEG'',
      sample_row ''wisteria01'' 1 0 ''It'' ''OS'',
      sample_row ''wisteria01'' 1 1 ''is'' ''OS'',
      sample_row ''wisteria01'' 2 0 ''not'' ''B-NEG'']"

definition sample_predictions :: "cell list list" where
  "sample_predictions = [[Str ''B-NEG''], [Str ''OS'', Str ''I-NEG''], [Str ''OS'']]"

section \<open>Properties of double-precision rounding\<close>

lemma bitlen_powi_bounds:
  assumes "0 < a"
  shows "(2::rat) powi (bitlen a - 1) \<le> of_int a" and "of_int a < (2::rat) powi bitlen a"
proof -
  from bitlen_bounds [OF assms]
  have l: "2 ^ nat (bitlen a - 1) \<le> a" and u: "a < 2 ^ nat (bitlen a)" by simp_all
  have pos: "1 \<le> bitlen a"
    using assms bitlen_eq_zero_iff [of a] bitlen_nonneg [of a] by linarith
  have "(2::rat) powi (bitlen a - 1) = of_int (2 ^ nat (bitlen a - 1))"
    using pos by (simp add: power_int_def)
  also have "\<dots> \<le> of_int a" using l by (simp only: of_int_le_iff)
  finally show "(2::rat) powi (bitlen a - 1) \<le> of_int a" .
  have "(of_int a :: rat) < of_int (2 ^ nat (bitlen a))" using u by (simp only: of_int_less_iff)
  also have "\<dots> = (2::rat) powi bitlen a"
    using pos by (simp add: power_int_def)
  finally show "of_int a < (2::rat) powi bitlen a" .
qed

text \<open>\<open>ilog2\<close> is the binary exponent: \<open>2 ^ ilog2 x \<le> x < 2 ^ (ilog2 x + 1)\<close>.\<close>

lemma ilog2_bounds:
  assumes "0 < x"
  shows "2 powi ilog2 x \<le> x \<and> x < 2 powi (ilog2 x + 1)"
proof -
  obtain a b where q: "quotient_of x = (a, b)" by (cases "quotient_of x")
  then have b: "0 < b" and x: "x = of_int a / of_int b"
    by (simp_all add: quotient_of_denom_pos quotient_of_div)
  with assms have a: "0 < a"
    by (simp add: zero_less_divide_iff)
  let ?d = "bitlen a - bitlen b"
  note A = bitlen_powi_bounds [OF a] and B = bitlen_powi_bounds [OF b]
  have bpos: "(0::rat) < of_int b" using b by simp
  have up: "x < 2 powi (?d + 1)"
  proof -
    have "of_int a < (2::rat) powi bitlen a" by (rule A(2))
    also have "\<dots> = 2 powi (?d + 1) * 2 powi (bitlen b - 1)"
      by (simp add: power_int_add [symmetric])
    also have "\<dots> \<le> 2 powi (?d + 1) * of_int b"
      using B(1) by (intro mult_left_mono) simp_all
    finally show ?thesis using bpos by (simp add: x pos_divide_less_eq)
  qed
  have low: "2 powi (?d - 1) < x"
  proof -
    have "(2::rat) powi (?d - 1) * of_int b < 2 powi (?d - 1) * 2 powi bitlen b"
      using B(2) by (intro mult_strict_left_mono) simp_all
    also have "\<dots> = 2 powi (bitlen a - 1)"
      by (simp add: power_int_add [symmetric])
    also have "\<dots> \<le> of_int a" by (rule A(1))
    finally show ?thesis using bpos by (simp add: x pos_less_divide_eq)
  qed
  show ?thesis
  proof (cases "2 powi ?d \<le> x")
    case True
    then have "ilog2 x = ?d" by (simp add: ilog2_def q)
    with True up show ?thesis by simp
  next
    case False
    then have "ilog2 x = ?d - 1" by (simp add: ilog2_def q)
    with False low show ?thesis by simp
  qed
qed

lemma round_half_even_nonneg: "0 \<le> m \<Longrightarrow> 0 \<le> round_half_even m"
  by (simp add: round_half_even_def Let_def)

lemma nearest_double_nonneg: "0 \<le> x \<Longrightarrow> 0 \<le> nearest_double x"
  by (simp add: nearest_double_def round_half_even_nonneg)

lemma nearest_double_exact:
  "nearest_double 0 = 0" "nearest_double 1 = 1" "nearest_double 2 = 2"
  by code_simp+

section \<open>Properties of the scope metric\<close>

lemma sum_ones: "sum_list (map (\<lambda>_. 1) xs) = int (length xs)"
  by (induction xs) simp_all

lemma count_pairs_length:
  "count_pairs c ys ps = int (length (filter (\<lambda>(yt, yp). c yt yp) (zip ys ps)))"
  by (simp add: count_pairs_def sum_ones)

lemma filter_zip_index:
  "length xs = length ys \<Longrightarrow>
   length (filter (\<lambda>(a, b). c a b) (zip xs ys)) =
   length (filter (\<lambda>i. c (xs ! i) (ys ! i)) [0..<length xs])"
proof (induction xs ys rule: list_induct2)
  case Nil
  show ?case by simp
next
  case (Cons x xs y ys)
  have "[0..<length (x # xs)] = 0 # map Suc [0..<length xs]"
    by (simp add: upt_conv_Cons map_Suc_upt del: upt_Suc)
  then show ?case using Cons.IH
    by (simp add: filter_map comp_def del: upt_Suc)
qed

lemma count_pairs_spec:
  "length ys = length ps \<Longrightarrow> count_pairs c ys ps = int (spec_count c ys ps)"
  by (simp add: count_pairs_length filter_zip_index spec_count_def)

lemma spec_ratio_nonneg: "0 \<le> spec_ratio a b"
  by (simp add: spec_ratio_def nearest_double_nonneg)

lemma calculate_metrics_counts:
  assumes "true_positives ys ps = int a" "false_positives ys ps = int b"
    "false_negatives ys ps = int d"
  shows "calculate_metrics ys ps =
    Inr (spec_ratio a (a + b), spec_ratio a (a + d),
      spec_f1 (spec_ratio a (a + b)) (spec_ratio a (a + d)))"
proof -
  have p: "(if int a + int b > 0 then int_truediv (int a) (int a + int b) else Inr 0)
        = Inr (spec_ratio a (a + b))"
    by (simp add: int_truediv_def spec_ratio_def)
  have r: "(if int a + int d > 0 then int_truediv (int a) (int a + int d) else Inr 0)
        = Inr (spec_ratio a (a + d))"
    by (simp add: int_truediv_def spec_ratio_def)
  have f: "(if float_add P R > 0
            then float_truediv (float_mul 2 (float_mul P R)) (float_add P R) else Inr 0)
        = Inr (spec_f1 P R)"
    if "0 \<le> P" "0 \<le> R" for P R :: rat
  proof -
    from that have "0 \<le> nearest_double (P + R)"
      by (intro nearest_double_nonneg) simp
    then show ?thesis
      by (auto simp: float_add_def float_mul_def float_truediv_def spec_f1_def)
  qed
  show ?thesis
    unfolding calculate_metrics_def Let_def assms p r
    by (simp add: bind_def f spec_ratio_nonneg)
qed

lemma worked_example:
  "calculate_metrics [Str ''OS'', Str ''NEG'', Str ''OS''] [Str ''OS'', Str ''NEG'', Str ''NEG'']
     = Inr (1 / 2, 1, 6004799503160661 / 9007199254740992)"
  by code_simp

text \<open>
  C1, as amended. For label lists of equal length \<open>calculate_metrics\<close> returns the
  precision, recall and F1 that the specification defines by counting indices, each
  quotient being 0 when its denominator is 0 and each product, sum and quotient being
  rounded to the nearest double; for gold \<open>[OS, NEG, OS]\<close> and predicted
  \<open>[OS, NEG, NEG]\<close> it returns precision 0.5, recall 1.0 and, as F1, the double
  nearest to 2/3, which is 6004799503160661 / 2^53.
\<close>

theorem calculate_metrics_spec:
  "(length y_true = length y_pred \<longrightarrow>
      calculate_metrics y_true y_pred = Inr (spec_metrics y_true y_pred)) \<and>
   calculate_metrics [Str ''OS'', Str ''NEG'', Str ''OS''] [Str ''OS'', Str ''NEG'', Str ''NEG'']
     = Inr (1 / 2, 1, 6004799503160661 / 2 ^ 53) \<and>
   nearest_double (2 / 3) = 6004799503160661 / 2 ^ 53"
proof (intro conjI impI)
  assume len: "length y_true = length y_pred"
  show "calculate_metrics y_true y_pred = Inr (spec_metrics y_true y_pred)"
    by (rule trans [OF calculate_metrics_counts])
      (simp_all add: true_positives_def false_positives_def false_negatives_def
        count_pairs_spec [OF len] is_in_scope_def spec_metrics_def Let_def)
next
  show "calculate_metrics [Str ''OS'', Str ''NEG'', Str ''OS''] [Str ''OS'', Str ''NEG'', Str ''NEG'']
     = Inr (1 / 2, 1, 6004799503160661 / 2 ^ 53)"
    by (simp add: worked_example)
next
  show "nearest_double (2 / 3) = 6004799503160661 / 2 ^ 53"
    by code_simp
qed

text \<open>
  The same at a second pair of lists, with one true positive, one false positive and one
  false negative.
\<close>

theorem calculate_metrics_spec_witness:
  "length [Str ''B'', Str ''OS'', Str ''I'', Str ''OS''] = length [Str ''I'', Str ''OS'', Str ''OS'', Str ''B''] \<and>
   calculate_metrics [Str ''B'', Str ''OS'', Str ''I'', Str ''OS''] [Str ''I'', Str ''OS'', Str ''OS'', Str ''B'']
     = Inr (1 / 2, 1 / 2, 1 / 2)"
proof -
  have "spec_metrics [Str ''B'', Str ''OS'', Str ''I'', Str ''OS''] [Str ''I'', Str ''OS'', Str ''OS'', Str ''B'']
      = (1 / 2, 1 / 2, 1 / 2)"
    by code_simp
  with calculate_metrics_spec [of "[Str ''B'', Str ''OS'', Str ''I'', Str ''OS'']"
      "[Str ''I'', Str ''OS'', Str ''OS'', Str ''B'']"]
  show ?thesis by simp
qed

text \<open>
  C1 as stated fails, since the code computes in double precision. For the worked
  example the returned F1 is 6004799503160661 / 2^53, not 2/3. For five in-scope gold
  labels of which the last two are predicted \<open>OS\<close>, TP = 3, FP = 0 and FN = 2: the
  returned recall is not 3/5, and the returned F1 is 6755399441055743 / 2^53, which is
  neither \<open>2 * P * R / (P + R)\<close> for the exact quotients P = 1 and R = 3/5, that is
  3/4, nor the double nearest to it (3/4 is a double).
\<close>

theorem exact_quotients_counterexample:
  "calculate_metrics [Str ''OS'', Str ''NEG'', Str ''OS''] [Str ''OS'', Str ''NEG'', Str ''NEG'']
     = Inr (1 / 2, 1, 6004799503160661 / 9007199254740992) \<and>
   (6004799503160661 / 9007199254740992 :: rat) \<noteq> 2 / 3 \<and>
   length [Str ''B'', Str ''B'', Str ''B'', Str ''B'', Str ''B'']
     = length [Str ''B'', Str ''B'', Str ''B'', Str ''OS'', Str ''OS''] \<and>
   calculate_metrics [Str ''B'', Str ''B'', Str ''B'', Str ''B'', Str ''B'']
       [Str ''B'', Str ''B'', Str ''B'', Str ''OS'', Str ''OS'']
     = Inr (1, 5404319552844595 / 9007199254740992, 6755399441055743 / 9007199254740992) \<and>
   (5404319552844595 / 9007199254740992 :: rat) \<noteq> 3 / 5 \<and>
   (6755399441055743 / 9007199254740992 :: rat) \<noteq> 3 / 4 \<and>
   nearest_double (3 / 4) = 3 / 4"
proof -
  have "calculate_metrics [Str ''B'', Str ''B'', Str ''B'', Str ''B'', Str ''B'']
       [Str ''B'', Str ''B'', Str ''B'', Str ''OS'', Str ''OS'']
     = Inr (1, 5404319552844595 / 9007199254740992, 6755399441055743 / 9007199254740992)"
    by code_simp
  moreover have "nearest_double (3 / 4) = 3 / 4"
    by code_simp
  ultimately show ?thesis
    by (simp add: worked_example)
qed

lemma count_pairs_all:
  assumes "\<forall>(a, b)\<in>set (zip ys ps). c a b"
  shows "count_pairs c ys ps = int (min (length ys) (length ps))"
proof -
  have "filter (\<lambda>(yt, yp). c yt yp) (zip ys ps) = zip ys ps"
    using assms by (auto simp: filter_id_conv)
  then show ?thesis by (simp add: count_pairs_length)
qed

lemma count_pairs_none:
  assumes "\<forall>(a, b)\<in>set (zip ys ps). \<not> c a b"
  shows "count_pairs c ys ps = int 0"
proof -
  have "filter (\<lambda>(yt, yp). c yt yp) (zip ys ps) = []"
    using assms by (auto simp: filter_empty_conv)
  then show ?thesis by (simp add: count_pairs_length)
qed

lemma in_scope_zip:
  assumes "\<forall>l\<in>set ys. P l" "\<forall>l\<in>set ps. Q l"
  shows "\<forall>(a, b)\<in>set (zip ys ps). P a \<and> Q b"
  using assms by (auto dest: set_zip_leftD set_zip_rightD)

text \<open>
  C3, as amended. For non-empty gold and predicted label lists of equal length in which
  no label is \<open>OS\<close>, \<open>calculate_metrics\<close> returns precision, recall and F1 all equal
  to 1, whether or not any predicted label matches its gold label.
\<close>

theorem all_in_scope_perfect:
  assumes "length y_true = length y_pred" and "y_true \<noteq> []"
    and "\<forall>l\<in>set y_true. is_in_scope l" and "\<forall>l\<in>set y_pred. is_in_scope l"
  shows "calculate_metrics y_true y_pred = Inr (1, 1, 1)"
proof -
  let ?n = "length y_true"
  have z: "\<forall>(a, b)\<in>set (zip y_true y_pred). is_in_scope a \<and> is_in_scope b"
    using assms(3,4) by (rule in_scope_zip)
  have tp: "true_positives y_true y_pred = int ?n"
    unfolding true_positives_def using count_pairs_all [of y_true y_pred, OF z] assms(1) by simp
  have fp: "false_positives y_true y_pred = int 0"
    unfolding false_positives_def by (rule count_pairs_none) (use z in auto)
  have fn: "false_negatives y_true y_pred = int 0"
    unfolding false_negatives_def by (rule count_pairs_none) (use z in auto)
  have "?n \<noteq> 0" using assms(2) by simp
  then have one: "spec_ratio ?n (?n + 0) = 1"
    by (simp add: spec_ratio_def nearest_double_exact)
  have "spec_f1 1 1 = 1"
    by (simp add: spec_f1_def nearest_double_exact)
  then show ?thesis
    unfolding calculate_metrics_counts [OF tp fp fn] one by simp
qed

text \<open>
  Two tokens, every predicted label different from its gold label.
\<close>

theorem all_in_scope_perfect_witness:
  "length [Str ''B'', Str ''I''] = length [Str ''I'', Str ''B''] \<and> [Str ''B'', Str ''I''] \<noteq> [] \<and>
   is_in_scope (Str ''B'') \<and> is_in_scope (Str ''I'') \<and>
   calculate_metrics [Str ''B'', Str ''I''] [Str ''I'', Str ''B''] = Inr (1, 1, 1)"
  using all_in_scope_perfect [of "[Str ''B'', Str ''I'']" "[Str ''I'', Str ''B'']"]
  by (simp add: is_in_scope_def)

text \<open>
  C3 as stated fails for the empty pair of lists: they have the same length and hold no
  \<open>OS\<close> label, and the guards of the three quotients make F1 0, not 1.
\<close>

theorem all_in_scope_empty_counterexample:
  "length ([] :: cell list) = length ([] :: cell list) \<and>
   list_all is_in_scope [] \<and>
   calculate_metrics [] [] = Inr (0, 0, 0)"
  by (simp add: calculate_metrics_def true_positives_def false_positives_def
      false_negatives_def true_negatives_def count_pairs_def bind_def float_add_def
      nearest_double_exact)

lemma calculate_metrics_total:
  "\<exists>p r f. calculate_metrics ys ps = Inr (p, r, f) \<and> 0 \<le> p \<and> 0 \<le> r \<and>
     (true_positives ys ps + false_positives ys ps = 0 \<longrightarrow> p = 0) \<and>
     (true_positives ys ps + false_negatives ys ps = 0 \<longrightarrow> r = 0) \<and>
     (p + r = 0 \<longrightarrow> f = 0)"
proof -
  obtain a where a: "true_positives ys ps = int a"
    unfolding true_positives_def count_pairs_length by blast
  obtain b where b: "false_positives ys ps = int b"
    unfolding false_positives_def count_pairs_length by blast
  obtain d where d: "false_negatives ys ps = int d"
    unfolding false_negatives_def count_pairs_length by blast
  have zero: "spec_f1 P R = 0" if "P + R = 0" for P R
    using that by (simp add: spec_f1_def nearest_double_exact)
  have "spec_ratio a (a + b) = 0" if "a + b = 0"
    using that by (simp add: spec_ratio_def spec_f1_def nearest_double_exact)
  moreover have "spec_ratio a (a + d) = 0" if "a + d = 0"
    using that by (simp add: spec_ratio_def spec_f1_def nearest_double_exact)
  ultimately show ?thesis
    unfolding calculate_metrics_counts [OF a b d] a b d
    using zero spec_ratio_nonneg by (auto simp flip: of_nat_add)
qed
text \<open>
  C7. \<open>calculate_metrics\<close> never raises: for every pair of label lists, of any lengths,
  it returns a triple; precision is 0 when TP + FP is 0, recall is 0 when TP + FN is 0,
  F1 is 0 when precision + recall is 0; and when every gold and every predicted label is
  \<open>OS\<close>, all three are 0.
\<close>

theorem calculate_metrics_guarded:
  "(\<exists>p r f. calculate_metrics y_true y_pred = Inr (p, r, f) \<and>
     (true_positives y_true y_pred + false_positives y_true y_pred = 0 \<longrightarrow> p = 0) \<and>
     (true_positives y_true y_pred + false_negatives y_true y_pred = 0 \<longrightarrow> r = 0) \<and>
     (p + r = 0 \<longrightarrow> f = 0)) \<and>
   ((\<forall>l\<in>set y_true. l = Str ''OS'') \<and> (\<forall>l\<in>set y_pred. l = Str ''OS'') \<longrightarrow>
     calculate_metrics y_true y_pred = Inr (0, 0, 0))"
proof (intro conjI impI)
  show "\<exists>p r f. calculate_metrics y_true y_pred = Inr (p, r, f) \<and>
     (true_positives y_true y_pred + false_positives y_true y_pred = 0 \<longrightarrow> p = 0) \<and>
     (true_positives y_true y_pred + false_negatives y_true y_pred = 0 \<longrightarrow> r = 0) \<and>
     (p + r = 0 \<longrightarrow> f = 0)"
    using calculate_metrics_total [of y_true y_pred] by blast
next
  assume os: "(\<forall>l\<in>set y_true. l = Str ''OS'') \<and> (\<forall>l\<in>set y_pred. l = Str ''OS'')"
  then have z: "\<forall>(a, b)\<in>set (zip y_true y_pred). \<not> is_in_scope a \<and> \<not> is_in_scope b"
    by (intro in_scope_zip) (simp_all add: is_in_scope_def)
  have tp: "true_positives y_true y_pred = int 0"
    unfolding true_positives_def by (rule count_pairs_none) (use z in auto)
  have fp: "false_positives y_true y_pred = int 0"
    unfolding false_positives_def by (rule count_pairs_none) (use z in auto)
  have fn: "false_negatives y_true y_pred = int 0"
    unfolding false_negatives_def by (rule count_pairs_none) (use z in auto)
  show "calculate_metrics y_true y_pred = Inr (0, 0, 0)"
    unfolding calculate_metrics_counts [OF tp fp fn] by (simp add: spec_ratio_def spec_f1_def nearest_double_exact)
qed

text \<open>
  Two tokens, all labels \<open>OS\<close>: both count denominators are 0 and the result is
  \<open>(0, 0, 0)\<close>.
\<close>

theorem calculate_metrics_guarded_witness:
  "calculate_metrics [Str ''OS'', Str ''OS''] [Str ''OS'', Str ''OS''] = Inr (0, 0, 0) \<and>
   true_positives [Str ''OS'', Str ''OS''] [Str ''OS'', Str ''OS'']
     + false_positives [Str ''OS'', Str ''OS''] [Str ''OS'', Str ''OS''] = 0 \<and>
   true_positives [Str ''OS'', Str ''OS''] [Str ''OS'', Str ''OS'']
     + false_negatives [Str ''OS'', Str ''OS''] [Str ''OS'', Str ''OS''] = 0"
  using calculate_metrics_guarded [of "[Str ''OS'', Str ''OS'']" "[Str ''OS'', Str ''OS'']"]
  by (simp add: true_positives_def false_positives_def false_negatives_def count_pairs_def
      is_in_scope_def)

lemma count_pairs_prefix:
  "count_pairs c ys ps =
   count_pairs c (take (min (length ys) (length ps)) ys) (take (min (length ys) (length ps)) ps)"
proof -
  have "zip (take (min (length ys) (length ps)) ys) (take (min (length ys) (length ps)) ps)
      = take (length (zip ys ps)) (zip ys ps)"
    by (simp only: take_zip length_zip)
  then show ?thesis by (simp add: count_pairs_def)
qed

text \<open>
  C9. For label lists of any lengths, equal or not, \<open>calculate_metrics\<close> returns a
  triple, and TP, FP, FN, TN and the returned triple are those of the two prefixes of
  length \<open>min (len y_true) (len y_pred)\<close>: the trailing labels of the longer list
  have no effect.
\<close>

theorem calculate_metrics_common_prefix:
  "(\<exists>p r f. calculate_metrics y_true y_pred = Inr (p, r, f)) \<and>
   (let n = min (length y_true) (length y_pred) in
      true_positives y_true y_pred = true_positives (take n y_true) (take n y_pred) \<and>
      false_positives y_true y_pred = false_positives (take n y_true) (take n y_pred) \<and>
      false_negatives y_true y_pred = false_negatives (take n y_true) (take n y_pred) \<and>
      true_negatives y_true y_pred = true_negatives (take n y_true) (take n y_pred) \<and>
      calculate_metrics y_true y_pred = calculate_metrics (take n y_true) (take n y_pred))"
proof -
  let ?n = "min (length y_true) (length y_pred)"
  have c: "true_positives y_true y_pred = true_positives (take ?n y_true) (take ?n y_pred)"
    "false_positives y_true y_pred = false_positives (take ?n y_true) (take ?n y_pred)"
    "false_negatives y_true y_pred = false_negatives (take ?n y_true) (take ?n y_pred)"
    "true_negatives y_true y_pred = true_negatives (take ?n y_true) (take ?n y_pred)"
    unfolding true_positives_def false_positives_def false_negatives_def true_negatives_def
    by (rule count_pairs_prefix)+
  have "calculate_metrics y_true y_pred = calculate_metrics (take ?n y_true) (take ?n y_pred)"
    unfolding calculate_metrics_def c [symmetric] ..
  moreover have "\<exists>p r f. calculate_metrics y_true y_pred = Inr (p, r, f)"
    using calculate_metrics_total [of y_true y_pred] by blast
  ultimately show ?thesis using c by (simp add: Let_def)
qed

text \<open>
  Three gold labels against two predicted ones: the third gold label is ignored.
\<close>

theorem calculate_metrics_common_prefix_witness:
  "calculate_metrics [Str ''B'', Str ''OS'', Str ''I''] [Str ''OS'', Str ''B''] =
   calculate_metrics [Str ''B'', Str ''OS''] [Str ''OS'', Str ''B'']"
  using calculate_metrics_common_prefix [of "[Str ''B'', Str ''OS'', Str ''I'']" "[Str ''OS'', Str ''B'']"]
  by (simp add: Let_def)

section \<open>Properties of the label extractor\<close>

text \<open>
  C8. \<open>extract_labels\<close> is total and returns, for every sentence, a list of the length
  of the sentence whose element at each index is the gold label of the token at that
  index.
\<close>

theorem extract_labels_projection:
  "length (extract_labels sentence) = length sentence \<and>
   (\<forall>i<length sentence. extract_labels sentence ! i = label (sentence ! i))"
  by (simp add: extract_labels_def)

text \<open>
  The labels of the sample sentence.
\<close>

theorem extract_labels_projection_witness:
  "length (extract_labels sample_sentence) = 3 \<and>
   extract_labels sample_sentence = [Str ''OS'', Str ''OS'', Str ''B-NEG'']"
proof -
  have "length sample_sentence = 3"
    and "label (sample_sentence ! 0) = Str ''OS''" "label (sample_sentence ! 1) = Str ''OS''"
    and "label (sample_sentence ! 2) = Str ''B-NEG''"
    by (simp_all add: sample_sentence_def sample_token_def)
  with extract_labels_projection [of sample_sentence]
  have "length (extract_labels sample_sentence) = 3"
    and "extract_labels sample_sentence ! 0 = Str ''OS''"
    and "extract_labels sample_sentence ! 1 = Str ''OS''"
    and "extract_labels sample_sentence ! 2 = Str ''B-NEG''"
    by simp_all
  then show ?thesis
    by (simp add: list_eq_iff_nth_eq numeral_3_eq_3 numeral_2_eq_2 less_Suc_eq all_conj_distrib)
qed

section \<open>Properties of the feature builder\<close>

lemma keys_build_features: "keys (build_features s i) = dict_literal_keys"
  by (simp add: build_features_def keys_def Let_def dict_literal_keys_def)

lemma length_dict_literal_keys: "length dict_literal_keys = 18"
  by (simp add: dict_literal_keys_def)

lemma map_of_dict_del: "map_of (dict_del k d) = (map_of d)(k := None)"
  by (induction d) (auto simp: dict_del_def)

lemma keys_dict_del: "keys (dict_del k d) = removeAll k (keys d)"
  by (induction d) (auto simp: dict_del_def keys_def)

lemma distinct_dict_literal_keys: "distinct dict_literal_keys"
  by (simp add: dict_literal_keys_def)

lemma map_of_build_features_context:
  "map_of (build_features s i) ''lexicalized_pos''
     = Some (Str (py_str (lemma' (s ! i)) @ ''_'' @ py_str (pos (s ! i))))"
  "map_of (build_features s i) ''prev_pos''
     = Some (if i = 0 then Str ''START'' else pos (s ! (i - 1)))"
  "map_of (build_features s i) ''next_pos''
     = Some (if i < length s - 1 then pos (s ! (i + 1)) else Str ''END'')"
  by (simp_all add: build_features_def Let_def)

lemma map_of_build_features_fields:
  "\<forall>(k, f)\<in>set token_fields. k \<noteq> ''label'' \<longrightarrow>
     map_of (build_features s i) k = Some (f (s ! i))"
proof -
  have "list_all (\<lambda>(k, f). k \<noteq> ''label'' \<longrightarrow> map_of (build_features s i) k = Some (f (s ! i)))
      token_fields"
    by (simp add: token_fields_def build_features_def Let_def)
  then show ?thesis by (simp only: list_all_iff)
qed

lemma removeAll_label_fields:
  "removeAll ''label'' (map fst token_fields) =
    [''token'', ''lemma'', ''pos'', ''cue'', ''constituency_distance'', ''same_clause'',
     ''same_phrase'', ''is_punct'', ''sentence_position'', ''is_negation_cue'',
     ''token_distance'', ''dependency_type'', ''dependency_head'', ''distance_to_root'',
     ''distance_to_cue'']"
  by (simp add: token_fields_def)

lemma set_keys_build_features:
  "set (keys (build_features s i)) =
     (set (map fst token_fields) - {''label''}) \<union> {''lexicalized_pos'', ''prev_pos'', ''next_pos''}"
proof -
  have "set (map fst token_fields) - {''label''} = set (removeAll ''label'' (map fst token_fields))"
    by (simp only: set_removeAll)
  then show ?thesis
    unfolding keys_build_features dict_literal_keys_def removeAll_label_fields
    by (intro equalityI; simp)
qed

lemma exclude_Some:
  assumes "[] \<notin> set (keys d)"
  shows "exclude (Some k) d = dict_del k d"
proof (cases "k \<in> set (keys d)")
  case True
  with assms have "k \<noteq> []" by auto
  with True show ?thesis by (simp add: exclude_def)
next
  case False
  then have "dict_del k d = d"
    by (auto simp: dict_del_def keys_def filter_id_conv)
  with False show ?thesis by (simp add: exclude_def)
qed

lemma empty_not_key: "[] \<notin> set (keys (build_features s i))"
  by (simp add: keys_build_features dict_literal_keys_def)

lemma nth_extract_features:
  "i < length s \<Longrightarrow> extract_features s e ! i = exclude e (build_features s i)"
  by (simp add: extract_features_def)

lemma length_extract_features: "length (extract_features s e) = length s"
  by (simp add: extract_features_def)

text \<open>
  C2, as amended. For every token of every sentence the mapping built by
  \<open>extract_features\<close> with no excluded feature has exactly 18 pairwise distinct keys:
  the 16 token attributes without \<open>label\<close>, each mapped to that attribute of the token,
  and \<open>lexicalized_pos\<close>, \<open>prev_pos\<close> and \<open>next_pos\<close>; \<open>lexicalized_pos\<close> is the
  formatted lemma, an underscore and the formatted POS, which is lemma + "_" + POS when
  both are texts.
\<close>

theorem feature_mapping_keys:
  assumes "i < length sentence"
  shows "distinct (keys (extract_features sentence None ! i)) \<and>
    length (keys (extract_features sentence None ! i)) = 18 \<and>
    set (keys (extract_features sentence None ! i)) =
      (set (map fst token_fields) - {''label''}) \<union> {''lexicalized_pos'', ''prev_pos'', ''next_pos''} \<and>
    (\<forall>(k, f)\<in>set token_fields. k \<noteq> ''label'' \<longrightarrow>
       map_of (extract_features sentence None ! i) k = Some (f (sentence ! i))) \<and>
    map_of (extract_features sentence None ! i) ''lexicalized_pos''
      = Some (Str (py_str (lemma' (sentence ! i)) @ ''_'' @ py_str (pos (sentence ! i)))) \<and>
    (\<forall>l p. lemma' (sentence ! i) = Str l \<and> pos (sentence ! i) = Str p \<longrightarrow>
       map_of (extract_features sentence None ! i) ''lexicalized_pos'' = Some (Str (l @ ''_'' @ p)))"
proof -
  have d: "extract_features sentence None ! i = build_features sentence i"
    using assms by (simp add: nth_extract_features exclude_def)
  have 1: "distinct (keys (build_features sentence i))"
    by (simp only: keys_build_features distinct_dict_literal_keys)
  have 2: "length (keys (build_features sentence i)) = 18"
    by (simp only: keys_build_features length_dict_literal_keys)
  have 5: "\<forall>l p. lemma' (sentence ! i) = Str l \<and> pos (sentence ! i) = Str p \<longrightarrow>
       map_of (build_features sentence i) ''lexicalized_pos'' = Some (Str (l @ ''_'' @ p))"
    by (simp add: map_of_build_features_context(1))
  show ?thesis
    unfolding d
    by (intro conjI 1 2 5 set_keys_build_features map_of_build_features_fields
        map_of_build_features_context(1))
qed

lemma sample_features_0:
  "extract_features sample_sentence None ! 0 = build_features sample_sentence 0"
  by (simp add: nth_extract_features exclude_def sample_sentence_def)

text \<open>
  The first token of the sample sentence.
\<close>

theorem feature_mapping_keys_witness:
  "0 < length sample_sentence \<and>
   length (keys (extract_features sample_sentence None ! 0)) = 18 \<and>
   map_of (extract_features sample_sentence None ! 0) ''lexicalized_pos'' = Some (Str ''it_PRP'') \<and>
   map_of (extract_features sample_sentence None ! 0) ''distance_to_cue'' = Some NaN"
  using feature_mapping_keys [of 0 sample_sentence]
  by (simp add: sample_sentence_def sample_token_def token_fields_def)

text \<open>
  C2 as stated fails: the mapping of the first token of the sample sentence has 18 keys,
  not 17.
\<close>

theorem seventeen_keys_counterexample:
  "card (set (keys (extract_features sample_sentence None ! 0))) = 18 \<and>
   card (set (keys (extract_features sample_sentence None ! 0))) \<noteq> 17"
proof -
  have "card (set (keys (extract_features sample_sentence None ! 0))) = 18"
    unfolding sample_features_0 keys_build_features
    by (simp only: distinct_card [OF distinct_dict_literal_keys] length_dict_literal_keys)
  then show ?thesis by simp
qed

lemma map_of_exclude_other:
  "e \<noteq> Some k \<Longrightarrow> map_of (exclude e d) k = map_of d k"
  by (cases e) (simp_all add: exclude_def map_of_dict_del)

text \<open>
  C4. For every sentence (empty or not) and every choice of \<open>exclude_feature\<close>,
  \<open>extract_features\<close> returns a list of the length of the sentence; unless
  \<open>prev_pos\<close> is the excluded feature, the mapping at index \<open>i\<close> has \<open>prev_pos\<close>
  equal to the POS of token \<open>i - 1\<close>, or to \<open>START\<close> when \<open>i = 0\<close>; unless
  \<open>next_pos\<close> is the excluded feature, it has \<open>next_pos\<close> equal to the POS of token
  \<open>i + 1\<close>, or to \<open>END\<close> when \<open>i\<close> is the last index.
\<close>

theorem neighbour_pos_features:
  "length (extract_features sentence e) = length sentence \<and>
   (\<forall>i<length sentence.
      (e \<noteq> Some ''prev_pos'' \<longrightarrow>
         map_of (extract_features sentence e ! i) ''prev_pos'' =
           Some (if i = 0 then Str ''START'' else pos (sentence ! (i - 1)))) \<and>
      (e \<noteq> Some ''next_pos'' \<longrightarrow>
         map_of (extract_features sentence e ! i) ''next_pos'' =
           Some (if i = length sentence - 1 then Str ''END'' else pos (sentence ! (i + 1)))))"
proof (intro conjI allI impI)
  show "length (extract_features sentence e) = length sentence"
    by (rule length_extract_features)
next
  fix i assume "i < length sentence" "e \<noteq> Some ''prev_pos''"
  then show "map_of (extract_features sentence e ! i) ''prev_pos'' =
           Some (if i = 0 then Str ''START'' else pos (sentence ! (i - 1)))"
    by (simp add: nth_extract_features map_of_exclude_other map_of_build_features_context(2))
next
  fix i assume i: "i < length sentence" and "e \<noteq> Some ''next_pos''"
  then have "map_of (extract_features sentence e ! i) ''next_pos'' =
      Some (if i < length sentence - 1 then pos (sentence ! (i + 1)) else Str ''END'')"
    by (simp add: nth_extract_features map_of_exclude_other map_of_build_features_context(3))
  moreover from i have "i < length sentence - 1 \<longleftrightarrow> i \<noteq> length sentence - 1"
    by arith
  ultimately show "map_of (extract_features sentence e ! i) ''next_pos'' =
           Some (if i = length sentence - 1 then Str ''END'' else pos (sentence ! (i + 1)))"
    by simp
qed

text \<open>
  The three tokens of the sample sentence, no feature excluded.
\<close>

theorem neighbour_pos_features_witness:
  "sample_sentence \<noteq> [] \<and> length (extract_features sample_sentence None) = 3 \<and>
   map_of (extract_features sample_sentence None ! 0) ''prev_pos'' = Some (Str ''START'') \<and>
   map_of (extract_features sample_sentence None ! 0) ''next_pos'' = Some (Str ''VBZ'') \<and>
   map_of (extract_features sample_sentence None ! 1) ''prev_pos'' = Some (Str ''PRP'') \<and>
   map_of (extract_features sample_sentence None ! 1) ''next_pos'' = Some (Str ''RB'') \<and>
   map_of (extract_features sample_sentence None ! 2) ''prev_pos'' = Some (Str ''VBZ'') \<and>
   map_of (extract_features sample_sentence None ! 2) ''next_pos'' = Some (Str ''END'')"
proof -
  have n: "length sample_sentence = 3" "sample_sentence \<noteq> []"
    by (simp_all add: sample_sentence_def)
  have p: "pos (sample_sentence ! 0) = Str ''PRP''" "pos (sample_sentence ! 1) = Str ''VBZ''"
    "pos (sample_sentence ! 2) = Str ''RB''"
    by (simp_all add: sample_sentence_def sample_token_def)
  from neighbour_pos_features [of sample_sentence None]
  have "length (extract_features sample_sentence None) = 3"
    and "\<forall>i<3. map_of (extract_features sample_sentence None ! i) ''prev_pos'' =
           Some (if i = 0 then Str ''START'' else pos (sample_sentence ! (i - 1))) \<and>
         map_of (extract_features sample_sentence None ! i) ''next_pos'' =
           Some (if i = 2 then Str ''END'' else pos (sample_sentence ! (i + 1)))"
    by (simp_all add: n)
  then show ?thesis using n(2) p
    by (simp add: numeral_3_eq_3 less_Suc_eq all_conj_distrib numeral_2_eq_2)
qed

text \<open>
  C5. For every sentence and every name \<open>k\<close>: the result of \<open>extract_features\<close> with
  \<open>k\<close> excluded has the length of the result without exclusion; at every token, if
  \<open>k\<close> is a key of the mapping built without exclusion, the mapping built with
  exclusion is that mapping without \<open>k\<close> (the other keys in the same order with the
  same values, 17 keys left), and if \<open>k\<close> is not a key, the two mappings are equal.
\<close>

theorem exclude_feature_frame:
  "length (extract_features sentence (Some k)) = length (extract_features sentence None) \<and>
   (\<forall>i<length sentence.
      (k \<in> set (keys (extract_features sentence None ! i)) \<longrightarrow>
         map_of (extract_features sentence (Some k) ! i)
           = (map_of (extract_features sentence None ! i))(k := None) \<and>
         keys (extract_features sentence (Some k) ! i)
           = removeAll k (keys (extract_features sentence None ! i)) \<and>
         length (keys (extract_features sentence (Some k) ! i)) = 17) \<and>
      (k \<notin> set (keys (extract_features sentence None ! i)) \<longrightarrow>
         extract_features sentence (Some k) ! i = extract_features sentence None ! i))"
proof (intro conjI allI impI)
  show "length (extract_features sentence (Some k)) = length (extract_features sentence None)"
    by (simp only: length_extract_features)
next
  fix i assume i: "i < length sentence"
  have b: "extract_features sentence None ! i = build_features sentence i"
    using i by (simp add: nth_extract_features exclude_def)
  have x: "extract_features sentence (Some k) ! i = dict_del k (build_features sentence i)"
    using i by (simp only: nth_extract_features exclude_Some [OF empty_not_key])
  {
    assume "k \<in> set (keys (extract_features sentence None ! i))"
    then have k: "k \<in> set dict_literal_keys"
      unfolding b keys_build_features .
    show "map_of (extract_features sentence (Some k) ! i)
           = (map_of (extract_features sentence None ! i))(k := None)"
      by (simp only: b x map_of_dict_del)
    show r: "keys (extract_features sentence (Some k) ! i)
           = removeAll k (keys (extract_features sentence None ! i))"
      by (simp only: b x keys_dict_del)
    have "length (removeAll k dict_literal_keys) = length dict_literal_keys - 1"
      using k distinct_dict_literal_keys
      by (simp add: distinct_remove1_removeAll [symmetric] length_remove1)
    then show "length (keys (extract_features sentence (Some k) ! i)) = 17"
      by (simp only: r b keys_build_features length_dict_literal_keys)
  }
  {
    assume "k \<notin> set (keys (extract_features sentence None ! i))"
    then have "k \<notin> set (keys (build_features sentence i))" unfolding b .
    then have "dict_del k (build_features sentence i) = build_features sentence i"
      by (auto simp: dict_del_def keys_def filter_id_conv)
    then show "extract_features sentence (Some k) ! i = extract_features sentence None ! i"
      by (simp only: b x)
  }
qed

text \<open>
  Excluding \<open>pos\<close>, a key, and \<open>label\<close>, not a key, at the first token of the sample
  sentence.
\<close>

theorem exclude_feature_frame_witness:
  "0 < length sample_sentence \<and>
   ''pos'' \<in> set (keys (extract_features sample_sentence None ! 0)) \<and>
   map_of (extract_features sample_sentence (Some ''pos'') ! 0) ''pos'' = None \<and>
   map_of (extract_features sample_sentence (Some ''pos'') ! 0) ''lemma'' = Some (Str ''it'') \<and>
   ''label'' \<notin> set (keys (extract_features sample_sentence None ! 0)) \<and>
   extract_features sample_sentence (Some ''label'') ! 0 = extract_features sample_sentence None ! 0"
proof -
  have n: "0 < length sample_sentence" by (simp add: sample_sentence_def)
  have k: "''pos'' \<in> set (keys (extract_features sample_sentence None ! 0))"
    "''label'' \<notin> set (keys (extract_features sample_sentence None ! 0))"
    unfolding sample_features_0 keys_build_features by (simp_all add: dict_literal_keys_def)
  have l: "map_of (extract_features sample_sentence None ! 0) ''lemma'' = Some (Str ''it'')"
    unfolding sample_features_0
    by (simp add: build_features_def Let_def sample_sentence_def sample_token_def)
  from exclude_feature_frame [of sample_sentence "''pos''"] n k(1)
  have "map_of (extract_features sample_sentence (Some ''pos'') ! 0)
           = (map_of (extract_features sample_sentence None ! 0))(''pos'' := None)"
    by blast
  moreover from exclude_feature_frame [of sample_sentence "''label''"] n k(2)
  have "extract_features sample_sentence (Some ''label'') ! 0 = extract_features sample_sentence None ! 0"
    by blast
  ultimately show ?thesis using n k l by simp
qed

section \<open>Properties of the loader and the writer\<close>

lemma sorted_groups_concat:
  fixes f :: "'a \<Rightarrow> 'k::linorder"
  assumes "sorted (map f xs)"
  shows "concat (map (\<lambda>k. filter (\<lambda>x. f x = k) xs) (sorted_list_of_set (f ` set xs))) = xs"
  using assms
proof (induction xs)
  case Nil
  show ?case by simp
next
  case (Cons x xs)
  let ?k = "f x" and ?S = "f ` set xs"
  from Cons.prems have le: "\<forall>y\<in>?S. ?k \<le> y" and srt: "sorted (map f xs)"
    by auto
  have fin: "finite ?S" by simp
  have head: "sorted_list_of_set (insert ?k ?S) = ?k # sorted_list_of_set (?S - {?k})"
  proof -
    have "\<forall>y\<in>set (sorted_list_of_set (?S - {?k})). ?k \<le> y"
      using le by auto
    then show ?thesis
      by (simp add: sorted_list_of_set_insert_remove [OF fin] insort_is_Cons)
  qed
  have rest: "map (\<lambda>k. filter (\<lambda>y. f y = k) (x # xs)) (sorted_list_of_set (?S - {?k}))
      = map (\<lambda>k. filter (\<lambda>y. f y = k) xs) (sorted_list_of_set (?S - {?k}))"
    by (rule map_cong) auto
  have tail: "filter (\<lambda>y. f y = ?k) xs
      @ concat (map (\<lambda>k. filter (\<lambda>y. f y = k) xs) (sorted_list_of_set (?S - {?k}))) = xs"
  proof (cases "?k \<in> ?S")
    case True
    then have "insert ?k ?S = ?S" by auto
    with head have "sorted_list_of_set ?S = ?k # sorted_list_of_set (?S - {?k})" by simp
    with Cons.IH [OF srt] show ?thesis by simp
  next
    case False
    then have "filter (\<lambda>y. f y = ?k) xs = []"
      by (force simp: filter_empty_conv image_iff)
    moreover from False have "?S - {?k} = ?S" by auto
    ultimately show ?thesis using Cons.IH [OF srt] by simp
  qed
  have "concat (map (\<lambda>k. filter (\<lambda>y. f y = k) (x # xs)) (sorted_list_of_set (f ` set (x # xs))))
      = filter (\<lambda>y. f y = ?k) (x # xs)
        @ concat (map (\<lambda>k. filter (\<lambda>y. f y = k) (x # xs)) (sorted_list_of_set (?S - {?k})))"
    using head by simp
  also have "\<dots> = x # (filter (\<lambda>y. f y = ?k) xs
        @ concat (map (\<lambda>k. filter (\<lambda>y. f y = k) xs) (sorted_list_of_set (?S - {?k}))))"
    unfolding rest by simp
  also have "\<dots> = x # xs" unfolding tail ..
  finally show ?case .
qed

lemma groupby_keyed:
  assumes "\<forall>r\<in>set df. group_key r \<noteq> None"
  shows "map snd (groupby df) =
    map (\<lambda>k. filter (\<lambda>r. the (group_key r) = k) df)
      (sorted_list_of_set ((the \<circ> group_key) ` set df))"
proof -
  have "filter (\<lambda>r. group_key r \<noteq> None) df = df"
    using assms by (simp add: filter_id_conv)
  then have keys: "List.map_filter group_key df = map (the \<circ> group_key) df"
    by (simp add: List.map_filter_def)
  have "filter (\<lambda>r. group_key r = Some k) df = filter (\<lambda>r. the (group_key r) = k) df" for k
    by (rule filter_cong) (use assms in auto)
  then show ?thesis
    by (simp add: groupby_def keys comp_def sorted_list_of_set_sort_remdups [symmetric])
qed

lemma groupby_concat:
  assumes "\<forall>r\<in>set df. group_key r \<noteq> None" and "sorted (map (the \<circ> group_key) df)"
  shows "concat (map snd (groupby df)) = df"
  unfolding groupby_keyed [OF assms(1)]
  using sorted_groups_concat [OF assms(2)] by (simp add: comp_def)

lemma set_label_column_same_length:
  assumes "length vals = length df"
  shows "set_label_column df vals = Inr (relabel df vals)"
  using assms by (auto simp: set_label_column_def)

lemma relabelled_columns:
  assumes "length vals = length df"
  shows "map group_key (relabel df vals) = map group_key df"
    and "map row_label (relabel df vals) = vals"
  using assms
  by (induction vals df rule: list_induct2) (simp_all add: relabel_def group_key_def)

lemma order_key_group_key:
  assumes "order_key r = Some (d, n, t)"
  shows "group_key r = Some (d, n)"
  using assms by (auto simp: order_key_def group_key_def split: option.splits)

lemma rows_ordered_groups:
  assumes "rows_ordered df"
  shows "\<forall>r\<in>set df. group_key r \<noteq> None" and "sorted (map (the \<circ> group_key) df)"
proof -
  have present: "\<forall>r\<in>set df. \<exists>d n t. order_key r = Some (d, n, t)"
    using assms by (auto simp: rows_ordered_def list_all_iff)
  then show "\<forall>r\<in>set df. group_key r \<noteq> None"
    by (auto dest!: bspec dest: order_key_group_key)
  have "sorted_wrt (\<lambda>a b. the (order_key a) \<le> the (order_key b)) df"
    using assms by (simp add: rows_ordered_def sorted_map comp_def)
  then have "sorted_wrt (\<lambda>a b. the (group_key a) \<le> the (group_key b)) df"
  proof (rule sorted_wrt_mono_rel [rotated])
    fix a b assume "a \<in> set df" "b \<in> set df"
      and le: "the (order_key a) \<le> the (order_key b)"
    with present obtain d n t d' n' t'
      where a: "order_key a = Some (d, n, t)" and b: "order_key b = Some (d', n', t')"
      by blast
    from le show "the (group_key a) \<le> the (group_key b)"
      unfolding a b order_key_group_key [OF a] order_key_group_key [OF b]
      by (auto simp: less_eq_prod_def less_prod_def)
  qed
  then show "sorted (map (the \<circ> group_key) df)"
    by (simp add: sorted_map comp_def)
qed

lemma extract_labels_row_tuple: "extract_labels (map row_tuple g) = map row_label g"
  by (simp add: extract_labels_def row_tuple_def)

lemma labels_format_data:
  "map extract_labels (format_data df) = map (map row_label) (map snd (groupby df))"
  by (simp add: format_data_def extract_labels_row_tuple case_prod_unfold comp_def)

lemma groupby_map_key:
  "map (length \<circ> snd) (groupby df) =
   map (\<lambda>k. length (filter (\<lambda>x. x = Some k) (map group_key df)))
     (sort (remdups (List.map_filter id (map group_key df))))"
proof -
  have "List.map_filter id (map group_key df) = List.map_filter group_key df"
    by (simp add: List.map_filter_def filter_map comp_def)
  then show ?thesis
    by (simp add: groupby_def filter_map comp_def)
qed

lemma concat_shape_eq:
  "concat xs = concat ys \<Longrightarrow> map length xs = map length ys \<Longrightarrow> xs = ys"
proof (induction xs arbitrary: ys)
  case Nil
  then show ?case by simp
next
  case (Cons x xs)
  then obtain y ys' where ys: "ys = y # ys'" by (cases ys) auto
  with Cons.prems have "length x = length y" "x @ concat xs = y @ concat ys'"
    "map length xs = map length ys'"
    by simp_all
  then show ?case using Cons.IH [of ys'] ys by simp
qed

lemma groups_of_keys:
  assumes "map group_key a = map group_key b"
    and "\<forall>r\<in>set b. group_key r \<noteq> None" and "sorted (map (the \<circ> group_key) b)"
  shows "\<forall>r\<in>set a. group_key r \<noteq> None" and "sorted (map (the \<circ> group_key) a)"
proof -
  have "set (map group_key a) = set (map group_key b)"
    by (simp only: assms(1))
  with assms(2) show "\<forall>r\<in>set a. group_key r \<noteq> None"
    by (metis (no_types, lifting) image_eqI list.set_map option.distinct(1) imageE)
  have "map (the \<circ> group_key) a = map the (map group_key a)"
    by simp
  also have "\<dots> = map (the \<circ> group_key) b"
    by (simp add: assms(1))
  finally show "sorted (map (the \<circ> group_key) a)"
    using assms(3) by simp
qed

text \<open>
  C6, as amended. Let the original file hold a table ordered by (document id, sentence
  number, token number); let the nested predictions be texts (the label column then
  holds text, and \<open>iterrows\<close> hands out its cells unchanged), one per row when
  flattened; and let the table written be read back as written: the table parsed from
  the written text has the document ids, sentence numbers and labels of the table
  written. Then \<open>write_predictions_to_file\<close> succeeds, \<open>read_and_format_data\<close> loads
  the file it wrote, and the labels extracted from the loaded sentences are, in order,
  the flattened predictions; they are the nested predictions themselves when each
  predicted sequence has the length of its sentence in the original file.
\<close>

theorem write_then_read_round_trip:
  fixes fs :: "('d::linorder) files"
  assumes "fs original_file_path = Some df"
    and "rows_ordered df"
    and "length (concat predictions) = length df"
    and "list_all is_text (concat predictions)"
    and "read_back_as_written reread (relabel df (concat predictions))"
  shows "\<exists>labels.
    written_labels reread fs original_file_path predictions output_file_path = Inr labels \<and>
    concat labels = concat predictions \<and>
    (map length predictions = map length (format_data df) \<longrightarrow> labels = predictions)"
proof -
  let ?vals = "concat predictions"
  let ?df' = "reread (relabel df ?vals)"
  let ?fs' = "to_csv reread fs output_file_path (relabel df ?vals)"
  note cols = relabelled_columns [OF assms(3)]
  from assms(5) have keys: "map group_key ?df' = map group_key df"
    and labels: "map row_label ?df' = ?vals"
    by (simp_all add: read_back_as_written_def cols)
  have w: "write_predictions_to_file reread fs original_file_path predictions output_file_path
      = Inr ?fs'"
    by (simp add: write_predictions_to_file_def read_csv_def bind_def assms(1)
        set_label_column_same_length [OF assms(3)])
  have r: "read_and_format_data ?fs' output_file_path = Inr (format_data ?df')"
    by (simp add: read_and_format_data_def read_csv_def to_csv_def bind_def)
  have l: "written_labels reread fs original_file_path predictions output_file_path
      = Inr (map extract_labels (format_data ?df'))"
    by (simp add: written_labels_def w r bind_def)
  note grouped = groups_of_keys [OF keys rows_ordered_groups [OF assms(2)]]
  have flat: "concat (map extract_labels (format_data ?df')) = ?vals"
  proof -
    have "concat (map extract_labels (format_data ?df'))
        = map row_label (concat (map snd (groupby ?df')))"
      by (simp only: labels_format_data map_concat)
    also have "\<dots> = map row_label ?df'"
      by (simp only: groupby_concat [OF grouped])
    finally show ?thesis by (simp only: labels)
  qed
  have shape: "map length (format_data ?df') = map length (format_data df)"
  proof -
    have "map length (format_data d) = map (length \<circ> snd) (groupby d)" for d :: "'d row list"
      by (simp add: format_data_def case_prod_unfold comp_def)
    then show ?thesis by (simp only: groupby_map_key keys)
  qed
  have nested: "map extract_labels (format_data ?df') = predictions"
    if "map length predictions = map length (format_data df)"
  proof (rule concat_shape_eq [OF flat])
    have "map length (map extract_labels (format_data ?df')) = map length (format_data ?df')"
      by (simp add: extract_labels_def comp_def)
    with shape that show "map length (map extract_labels (format_data ?df')) = map length predictions"
      by simp
  qed
  from l flat nested show ?thesis by blast
qed

text \<open>
  The sample table and the sample predictions, whose labels are no NA markers.
\<close>

theorem write_then_read_round_trip_witness:
  "rows_ordered sample_table \<and>
   length (concat sample_predictions) = length sample_table \<and>
   list_all is_text (concat sample_predictions) \<and>
   read_back_as_written reread_na (relabel sample_table (concat sample_predictions)) \<and>
   map length sample_predictions = map length (format_data sample_table) \<and>
   written_labels reread_na [''dev.tsv'' \<mapsto> sample_table] ''dev.tsv'' sample_predictions ''out.tsv''
     = Inr sample_predictions"
proof -
  have o: "rows_ordered sample_table"
    by (simp add: rows_ordered_def order_key_def sample_table_def sample_row_def)
  have n: "length (concat sample_predictions) = length sample_table"
    by (simp add: sample_predictions_def sample_table_def)
  have t: "list_all is_text (concat sample_predictions)"
    by (simp add: sample_predictions_def is_text_def)
  have b: "read_back_as_written reread_na (relabel sample_table (concat sample_predictions))"
    by (simp add: read_back_as_written_def reread_na_def relabel_def read_label_def
        na_values_def group_key_def sample_predictions_def sample_table_def sample_row_def)
  have s: "map length sample_predictions = map length (format_data sample_table)"
    by (simp add: sample_predictions_def format_data_def groupby_def group_key_def
        sample_table_def sample_row_def)
  have f: "[''dev.tsv'' \<mapsto> sample_table] ''dev.tsv'' = Some sample_table"
    by simp
  from write_then_read_round_trip [where fs = "[''dev.tsv'' \<mapsto> sample_table]"
      and original_file_path = "''dev.tsv''" and output_file_path = "''out.tsv''"
      and reread = reread_na, OF f o n t b] s o n t b
  show ?thesis by auto
qed

text \<open>
  C6 as stated fails in two ways on the sample table, ordered and of four rows in
  sentences of one, two and one token. The predicted label \<open>NA\<close> is read back as the
  missing value. And predictions nested as two sequences of two labels are read back
  nested as the sentences of the file are.
\<close>

theorem round_trip_counterexample:
  "rows_ordered sample_table \<and>
   length (concat [[Str ''NA''], [Str ''OS'', Str ''I-NEG''], [Str ''OS'']]) = length sample_table \<and>
   written_labels reread_na [''dev.tsv'' \<mapsto> sample_table] ''dev.tsv''
       [[Str ''NA''], [Str ''OS'', Str ''I-NEG''], [Str ''OS'']] ''out.tsv''
     = Inr [[NaN], [Str ''OS'', Str ''I-NEG''], [Str ''OS'']] \<and>
   length (concat [[Str ''B-NEG'', Str ''OS''], [Str ''I-NEG'', Str ''OS'']]) = length sample_table \<and>
   written_labels reread_na [''dev.tsv'' \<mapsto> sample_table] ''dev.tsv''
       [[Str ''B-NEG'', Str ''OS''], [Str ''I-NEG'', Str ''OS'']] ''out.tsv''
     = Inr [[Str ''B-NEG''], [Str ''OS'', Str ''I-NEG''], [Str ''OS'']]"
proof -
  have o: "rows_ordered sample_table"
    by (simp add: rows_ordered_def order_key_def sample_table_def sample_row_def)
  have w: "written_labels reread_na [''dev.tsv'' \<mapsto> sample_table] ''dev.tsv'' p ''out.tsv''
      = Inr (map extract_labels (format_data (reread_na (relabel sample_table (concat p)))))"
    if "length (concat p) = length sample_table" for p
    by (simp add: written_labels_def write_predictions_to_file_def read_and_format_data_def
        read_csv_def to_csv_def bind_def set_label_column_same_length [OF that])
  have 1: "map extract_labels (format_data (reread_na (relabel sample_table
        (concat [[Str ''NA''], [Str ''OS'', Str ''I-NEG''], [Str ''OS'']]))))
      = [[NaN], [Str ''OS'', Str ''I-NEG''], [Str ''OS'']]"
    by (simp add: extract_labels_def format_data_def groupby_def group_key_def row_tuple_def
        reread_na_def relabel_def read_label_def na_values_def sample_table_def sample_row_def)
  have 2: "map extract_labels (format_data (reread_na (relabel sample_table
        (concat [[Str ''B-NEG'', Str ''OS''], [Str ''I-NEG'', Str ''OS'']]))))
      = [[Str ''B-NEG''], [Str ''OS'', Str ''I-NEG''], [Str ''OS'']]"
    by (simp add: extract_labels_def format_data_def groupby_def group_key_def row_tuple_def
        reread_na_def relabel_def read_label_def na_values_def sample_table_def sample_row_def)
  have n: "length (concat [[Str ''NA''], [Str ''OS'', Str ''I-NEG''], [Str ''OS'']]) = length sample_table"
    "length (concat [[Str ''B-NEG'', Str ''OS''], [Str ''I-NEG'', Str ''OS'']]) = length sample_table"
    by (simp_all add: sample_table_def)
  show ?thesis
    using o n by (simp only: w [OF n(1)] w [OF n(2)] 1 2)
qed

text \<open>
  C10, as amended. When the original file has at least one row and the flattened number
  of predicted labels differs from its number of rows, the assignment to the label
  column raises \<open>ValueError\<close>, and \<open>write_predictions_to_file\<close> ends with that error
  before \<open>to_csv\<close>: no output file is written.
\<close>

theorem length_mismatch_raises:
  assumes "fs original_file_path = Some df"
    and "df \<noteq> []"
    and "length (concat predictions) \<noteq> length df"
  shows "set_label_column df (concat predictions) = Inl ValueError \<and>
    write_predictions_to_file reread fs original_file_path predictions output_file_path
      = Inl ValueError"
  using assms
  by (simp add: write_predictions_to_file_def read_csv_def bind_def set_label_column_def)

text \<open>
  One predicted label for the four rows of the sample table.
\<close>

theorem length_mismatch_raises_witness:
  "sample_table \<noteq> [] \<and> length (concat [[Str ''OS'']]) \<noteq> length sample_table \<and>
   write_predictions_to_file reread_na [''dev.tsv'' \<mapsto> sample_table] ''dev.tsv'' [[Str ''OS'']]
       ''out.tsv''
     = Inl ValueError"
proof -
  have a: "sample_table \<noteq> []" and b: "length (concat [[Str ''OS'']]) \<noteq> length sample_table"
    by (simp_all add: sample_table_def)
  have f: "[''dev.tsv'' \<mapsto> sample_table] ''dev.tsv'' = Some sample_table"
    by simp
  from length_mismatch_raises [where fs = "[''dev.tsv'' \<mapsto> sample_table]"
      and original_file_path = "''dev.tsv''" and output_file_path = "''out.tsv''"
      and reread = reread_na, OF f a b] a b
  show ?thesis by simp
qed

text \<open>
  C10 as stated fails when the original file has no rows: one predicted label differs in
  number from the zero rows, yet the assignment does not raise and an output file of one
  row, missing everywhere but in its label, is written.
\<close>

theorem empty_table_counterexample:
  "length (concat [[Str ''OS'']]) \<noteq> length ([] :: string row list) \<and>
   write_predictions_to_file reread_na [''dev.tsv'' \<mapsto> ([] :: string row list)] ''dev.tsv''
       [[Str ''OS'']] ''out.tsv''
     = Inr [''dev.tsv'' \<mapsto> [], ''out.tsv'' \<mapsto> [nan_row\<lparr>row_label := Str ''OS''\<rparr>]]"
  by (simp add: write_predictions_to_file_def read_csv_def bind_def set_label_column_def
      to_csv_def reread_na_def read_label_def na_values_def)

end
